theory Spec2Isabelle
  imports Complex_Main "HOL-Library.Log_Nat"
begin

section \<open>Binary64 arithmetic\<close>

text \<open>
  The numbers of \<^verbatim>\<open>nestegg_montecarlo.py\<close> are Python floats and numpy \<^verbatim>\<open>float64\<close>
  values: IEEE 754 binary64. A float is modelled by the rational number it denotes, and
  every arithmetic operation computes the exact rational result and rounds it to the
  nearest number with a 53-bit significand, ties to the even significand. The exponent
  range is not bounded in this model: it describes the program as long as no operation
  overflows to infinity, underflows to a subnormal number or produces a NaN (magnitudes
  between \<open>2\<^sup>-\<^sup>1\<^sup>0\<^sup>2\<^sup>2\<close> and \<open>2\<^sup>1\<^sup>0\<^sup>2\<^sup>4\<close>).
\<close>

type_synonym float = rat

definition round_half_even :: "rat \<Rightarrow> int" where
  "round_half_even x =
     (let f = \<lfloor>x\<rfloor>; d = x - of_int f
      in if d < 1 / 2 then f
         else if 1 / 2 < d then f + 1
         else if even f then f else f + 1)"

definition ilog2 :: "rat \<Rightarrow> int" where
  \<comment> \<open>\<open>\<lfloor>log\<^sub>2 x\<rfloor>\<close> of a positive rational, from the bit lengths of numerator and denominator\<close>
  "ilog2 x =
     (let (a, b) = quotient_of x; k = bitlen a - bitlen b
      in if 2 powi k \<le> x then k else k - 1)"

definition rnd :: "rat \<Rightarrow> float" where
  \<comment> \<open>round to nearest, ties to even, 53 significant bits\<close>
  "rnd x =
     (if x = 0 then 0
      else let s = 2 powi (ilog2 \<bar>x\<bar> - 52)
           in of_int (round_half_even (x / s)) * s)"

definition is_float :: "rat \<Rightarrow> bool" where
  "is_float x \<longleftrightarrow> rnd x = x"

definition fadd :: "float \<Rightarrow> float \<Rightarrow> float" where
  "fadd x y = rnd (x + y)"

definition fsub :: "float \<Rightarrow> float \<Rightarrow> float" where
  "fsub x y = rnd (x - y)"

definition fmul :: "float \<Rightarrow> float \<Rightarrow> float" where
  "fmul x y = rnd (x * y)"

section \<open>Configuration constants\<close>

text \<open>
  The module-level constants. \<^verbatim>\<open>PORTFOLIO_DISTRIBUTION\<close> is a dict with exactly the keys
  \<^verbatim>\<open>"cash"\<close> and \<^verbatim>\<open>"equity"\<close>, in this insertion order; a decimal literal of the source
  denotes the binary64 number nearest to it.
\<close>

record distribution =
  cash_fraction :: float
  equity_fraction :: float

record config =
  YEARS_REMAINING :: nat
  STARTING_EQUITY :: float
  STARTING_CASH :: float
  AFTER_TAX_SALARY :: float
  FIXED_EXPENSES :: float
  SALARY_GROWTH_RATE :: float
  PORTFOLIO_DISTRIBUTION :: distribution
  SNP_DIV_YIELD :: float
  INTEREST_RATE :: float
  TAIL_RISK_COST :: float
  TAIL_RISK_PROBABILITY :: float
  RUNS :: int

definition ANNUAL_DRAWDOWN :: "config \<Rightarrow> float" where
  "ANNUAL_DRAWDOWN cfg = fadd (FIXED_EXPENSES cfg) 0"

definition module_constants :: config where
  "module_constants =
     \<lparr> YEARS_REMAINING = 110 - 25,
       STARTING_EQUITY = 60000,
       STARTING_CASH = 60000,
       AFTER_TAX_SALARY = 100000,
       FIXED_EXPENSES = 50000,
       SALARY_GROWTH_RATE = rnd (2 / 100),
       PORTFOLIO_DISTRIBUTION = \<lparr> cash_fraction = rnd (1 / 10), equity_fraction = rnd (9 / 10) \<rparr>,
       SNP_DIV_YIELD = rnd (14 / 1000),
       INTEREST_RATE = rnd (3 / 100),
       TAIL_RISK_COST = 30000,
       TAIL_RISK_PROBABILITY = rnd (1 / 30),
       RUNS = 1 \<rparr>"

datatype error = AssertionError

definition dict_values :: "distribution \<Rightarrow> float list" where
  "dict_values d = [cash_fraction d, equity_fraction d]"

definition py_sum :: "float list \<Rightarrow> float" where
  \<comment> \<open>the builtin \<^verbatim>\<open>sum\<close>: start at 0 and add from left to right\<close>
  "py_sum xs = foldl fadd 0 xs"

definition check_distribution :: "config \<Rightarrow> error + unit" where
  \<comment> \<open>\<^verbatim>\<open>assert sum(PORTFOLIO_DISTRIBUTION.values()) == 1, logger.error(...)\<close>\<close>
  "check_distribution cfg =
     (if py_sum (dict_values (PORTFOLIO_DISTRIBUTION cfg)) = 1 then Inr () else Inl AssertionError)"

section \<open>The portfolio recurrence\<close>

record portfolio =
  cash_pos :: "float list"
  equity_pos :: "float list"
  dividend_pos :: "float list"
  interest_pos :: "float list"
  snp_return_pos :: "float list"
  tail_risk_pos :: "float list"

text \<open>The quantities computed in one pass through the loop body, from the balances before it.\<close>

record year_step =
  dividend :: float
  interest :: float
  snp_return_amount :: float
  annual_distribution :: float
  cash_next :: float
  equity_next :: float

definition loop_body :: "config \<Rightarrow> float \<Rightarrow> float \<Rightarrow> float \<times> float \<times> float \<times> float \<Rightarrow> year_step" where
  "loop_body cfg cash equity row =
     (case row of (sal, snp_perc, dd, tail) \<Rightarrow>
        let dividend = fmul equity (SNP_DIV_YIELD cfg);
            interest = fmul cash (INTEREST_RATE cfg);
            snp_return = fmul equity snp_perc;
            annual_distribution = fsub (fsub (fadd (fadd sal dividend) interest) tail) dd;
            cash' = fadd cash (fmul annual_distribution (cash_fraction (PORTFOLIO_DISTRIBUTION cfg)));
            equity' = fadd equity
                        (fadd snp_return
                           (fmul annual_distribution (equity_fraction (PORTFOLIO_DISTRIBUTION cfg))))
        in \<lparr> dividend = dividend, interest = interest, snp_return_amount = snp_return,
             annual_distribution = annual_distribution, cash_next = cash', equity_next = equity' \<rparr>)"

fun annuity_loop ::
  "config \<Rightarrow> float \<Rightarrow> float \<Rightarrow> (float \<times> float \<times> float \<times> float) list \<Rightarrow> portfolio \<Rightarrow> portfolio" where
  "annuity_loop cfg cash equity [] acc = acc"
| "annuity_loop cfg cash equity ((sal, snp_perc, dd, tail) # rows) acc =
     (let s = loop_body cfg cash equity (sal, snp_perc, dd, tail)
      in annuity_loop cfg (cash_next s) (equity_next s) rows
           \<lparr> cash_pos = cash_pos acc @ [cash_next s],
             equity_pos = equity_pos acc @ [equity_next s],
             dividend_pos = dividend_pos acc @ [dividend s],
             interest_pos = interest_pos acc @ [interest s],
             snp_return_pos = snp_return_pos acc @ [snp_return_amount s],
             tail_risk_pos = tail_risk_pos acc @ [tail] \<rparr>)"

text \<open>The same steps as a list, one per year: what the loop appends, before it is split into columns.\<close>

fun trajectory ::
  "config \<Rightarrow> float \<Rightarrow> float \<Rightarrow> (float \<times> float \<times> float \<times> float) list \<Rightarrow> year_step list" where
  "trajectory cfg cash equity [] = []"
| "trajectory cfg cash equity (row # rows) =
     (let s = loop_body cfg cash equity row
      in s # trajectory cfg (cash_next s) (equity_next s) rows)"

definition zip4 :: "'a list \<Rightarrow> 'b list \<Rightarrow> 'c list \<Rightarrow> 'd list \<Rightarrow> ('a \<times> 'b \<times> 'c \<times> 'd) list" where
  \<comment> \<open>\<^verbatim>\<open>zip\<close> of four sequences stops with the shortest\<close>
  "zip4 ws xs ys zs = zip ws (zip xs (zip ys zs))"

definition portfolio_annuity ::
  "config \<Rightarrow> float list \<Rightarrow> float list \<Rightarrow> float list \<Rightarrow> float list \<Rightarrow> portfolio" where
  "portfolio_annuity cfg salary snp_return_percent drawdown tail_risk =
     annuity_loop cfg (STARTING_CASH cfg) (STARTING_EQUITY cfg)
       (zip4 salary snp_return_percent drawdown tail_risk)
       \<lparr> cash_pos = [], equity_pos = [], dividend_pos = [], interest_pos = [],
         snp_return_pos = [], tail_risk_pos = [] \<rparr>"

section \<open>The Monte Carlo driver\<close>

text \<open>
  numpy's global generator is not part of the repository: its operations are parameters.
  \<open>random_seed n\<close> is the generator state after \<^verbatim>\<open>np.random.seed(n)\<close>, whatever the state
  was before; \<open>random_normal loc scale size g\<close> and \<open>random_binomial n p size g\<close> return the
  drawn array and the state after the draw.
\<close>

record 'g numpy_random =
  random_seed :: "nat \<Rightarrow> 'g"
  random_normal :: "float \<Rightarrow> float \<Rightarrow> nat \<Rightarrow> 'g \<Rightarrow> float list \<times> 'g"
  random_binomial :: "nat \<Rightarrow> float \<Rightarrow> nat \<Rightarrow> 'g \<Rightarrow> int list \<times> 'g"

definition numpy_contract :: "'g numpy_random \<Rightarrow> bool" where
  \<comment> \<open>what numpy documents: \<^verbatim>\<open>size\<close> samples are returned, a binomial sample lies in \<open>0..n\<close>\<close>
  "numpy_contract rng \<longleftrightarrow>
     (\<forall>loc scale size g. length (fst (random_normal rng loc scale size g)) = size) \<and>
     (\<forall>n p size g. length (fst (random_binomial rng n p size g)) = size) \<and>
     (\<forall>n p size g. \<forall>b \<in> set (fst (random_binomial rng n p size g)). 0 \<le> b \<and> b \<le> int n)"

fun cumprod_from :: "float \<Rightarrow> float list \<Rightarrow> float list" where
  "cumprod_from p [] = []"
| "cumprod_from p (x # xs) = fmul p x # cumprod_from (fmul p x) xs"

definition cumprod :: "float list \<Rightarrow> float list" where
  \<comment> \<open>\<^verbatim>\<open>np.cumprod\<close>: the first entry is the first factor, each later one the product so far\<close>
  "cumprod xs = (case xs of [] \<Rightarrow> [] | x # rest \<Rightarrow> x # cumprod_from x rest)"

definition lprod :: "float list \<Rightarrow> float" where
  \<comment> \<open>the product of the factors taken from left to right, every partial product rounded\<close>
  "lprod xs = (case xs of [] \<Rightarrow> 1 | x # rest \<Rightarrow> foldl fmul x rest)"

definition drawdown_of :: "config \<Rightarrow> float list \<Rightarrow> float list" where
  \<comment> \<open>\<^verbatim>\<open>ANNUAL_DRAWDOWN * np.cumprod(1 + inflation)\<close>\<close>
  "drawdown_of cfg inflation = map (fmul (ANNUAL_DRAWDOWN cfg)) (cumprod (map (fadd 1) inflation))"

definition salary_growth_of :: "config \<Rightarrow> float list" where
  \<comment> \<open>\<^verbatim>\<open>np.repeat(1 + SALARY_GROWTH_RATE, YEARS_REMAINING)\<close>\<close>
  "salary_growth_of cfg = replicate (YEARS_REMAINING cfg) (fadd 1 (SALARY_GROWTH_RATE cfg))"

definition salary_of :: "config \<Rightarrow> float list \<Rightarrow> float list" where
  \<comment> \<open>\<^verbatim>\<open>AFTER_TAX_SALARY * np.cumprod(salary_growth)\<close>\<close>
  "salary_of cfg salary_growth = map (fmul (AFTER_TAX_SALARY cfg)) (cumprod salary_growth)"

definition tail_risk_of :: "config \<Rightarrow> int list \<Rightarrow> float list" where
  \<comment> \<open>\<^verbatim>\<open>TAIL_RISK_COST * np.random.binomial(...)\<close>: a float times an integer array\<close>
  "tail_risk_of cfg events = map (\<lambda>b. fmul (TAIL_RISK_COST cfg) (of_int b)) events"

record run =
  simulation :: int
  year :: "int list"
  nest_egg :: "float list"
  cash_position :: "float list"
  equity_position :: "float list"
  salary :: "float list"
  salary_growth :: "float list"
  div_yield :: "float list"
  div_return :: "float list"
  snp_return :: "float list"
  snp_return_percent :: "float list"
  interest_return :: "float list"
  inflation :: "float list"
  living_expenses :: "float list"
  tail_risk :: "float list"

definition one_run :: "'g numpy_random \<Rightarrow> config \<Rightarrow> nat \<Rightarrow> 'g \<Rightarrow> run \<times> 'g" where
  \<comment> \<open>the body of \<^verbatim>\<open>for i in range(runs)\<close>\<close>
  "one_run rng cfg i g =
     (let (snp_return_percent, g1) =
            random_normal rng (rnd (12 / 100)) (rnd (2 / 10)) (YEARS_REMAINING cfg) g;
          (inflation, g2) =
            random_normal rng (rnd (3 / 100)) (rnd (35 / 1000)) (YEARS_REMAINING cfg) g1;
          drawdown = drawdown_of cfg inflation;
          salary_growth = salary_growth_of cfg;
          salary = salary_of cfg salary_growth;
          (events, g3) =
            random_binomial rng 1 (TAIL_RISK_PROBABILITY cfg) (YEARS_REMAINING cfg) g2;
          tail_risk = tail_risk_of cfg events;
          portfolio = portfolio_annuity cfg salary snp_return_percent drawdown tail_risk;
          year = map (\<lambda>k. int k + 1) [0..<YEARS_REMAINING cfg]
      in (\<lparr> simulation = int i,
            year = year,
            nest_egg = map2 fadd (cash_pos portfolio) (equity_pos portfolio),
            cash_position = cash_pos portfolio,
            equity_position = equity_pos portfolio,
            salary = salary,
            salary_growth = salary_growth,
            div_yield = replicate (YEARS_REMAINING cfg) (SNP_DIV_YIELD cfg),
            div_return = dividend_pos portfolio,
            snp_return = snp_return_pos portfolio,
            snp_return_percent = snp_return_percent,
            interest_return = interest_pos portfolio,
            inflation = inflation,
            living_expenses = drawdown,
            tail_risk = tail_risk_pos portfolio \<rparr>, g3))"

fun simulation_loop ::
  "'g numpy_random \<Rightarrow> config \<Rightarrow> nat list \<Rightarrow> 'g \<Rightarrow> run list \<Rightarrow> run list \<times> 'g" where
  "simulation_loop rng cfg [] g simiulations = (simiulations, g)"
| "simulation_loop rng cfg (i # rest) g simiulations =
     (let (r, g') = one_run rng cfg i g
      in simulation_loop rng cfg rest g' (simiulations @ [r]))"

definition monte_carlo :: "'g numpy_random \<Rightarrow> config \<Rightarrow> int \<Rightarrow> 'g \<Rightarrow> run list \<times> 'g" where
  \<comment> \<open>the batch and the generator state left behind; \<open>g0\<close> is the state at the call\<close>
  "monte_carlo rng cfg runs g0 =
     (let g = random_seed rng 42
      in simulation_loop rng cfg [0..<nat runs] g [])"

definition main_module :: "'g numpy_random \<Rightarrow> config \<Rightarrow> 'g \<Rightarrow> error + run list" where
  \<comment> \<open>running the file as a script: the assertion, then \<^verbatim>\<open>monte_sims = monte_carlo()\<close>\<close>
  "main_module rng cfg g0 =
     (case check_distribution cfg of
        Inl e \<Rightarrow> Inl e
      | Inr _ \<Rightarrow> Inr (fst (monte_carlo rng cfg (RUNS cfg) g0)))"

text \<open>
  A small generator for evaluating the driver on concrete inputs: the state is a counter,
  every draw advances it, and the samples are simple functions of it.
\<close>

definition counter_rng :: "nat numpy_random" where
  "counter_rng =
     \<lparr> random_seed = (\<lambda>n. n),
       random_normal = (\<lambda>loc scale size g.
          (map (\<lambda>k. rnd (loc + scale * (of_nat ((g + k) mod 5) - 2))) [0..<size], g + size)),
       random_binomial = (\<lambda>n p size g.
          (map (\<lambda>k. if (g + k) mod 3 = 0 then int n else 0) [0..<size], g + size)) \<rparr>"

section \<open>Properties of the recurrence loop\<close>

lemma rnd_zero: "rnd 0 = 0"
  by (simp add: rnd_def)

lemma length_zip4:
  "length (zip4 ws xs ys zs) = min (length ws) (min (length xs) (min (length ys) (length zs)))"
  by (simp add: zip4_def)

lemma length_trajectory: "length (trajectory cfg c e rows) = length rows"
  by (induction rows arbitrary: c e) (simp_all add: Let_def)

lemma annuity_loop_columns:
  "annuity_loop cfg c e rows acc =
     \<lparr> cash_pos = cash_pos acc @ map cash_next (trajectory cfg c e rows),
       equity_pos = equity_pos acc @ map equity_next (trajectory cfg c e rows),
       dividend_pos = dividend_pos acc @ map dividend (trajectory cfg c e rows),
       interest_pos = interest_pos acc @ map interest (trajectory cfg c e rows),
       snp_return_pos = snp_return_pos acc @ map snp_return_amount (trajectory cfg c e rows),
       tail_risk_pos = tail_risk_pos acc @ map (\<lambda>row. snd (snd (snd row))) rows \<rparr>"
proof (induction rows arbitrary: c e acc)
  case Nil
  show ?case by simp
next
  case (Cons row rows)
  obtain sal snp_perc dd tail where row: "row = (sal, snp_perc, dd, tail)"
    by (cases row) auto
  show ?case
    unfolding row by (simp add: Let_def Cons.IH)
qed

lemma portfolio_annuity_columns:
  "portfolio_annuity cfg sal snp dd tr =
     (let rows = zip4 sal snp dd tr;
          ys = trajectory cfg (STARTING_CASH cfg) (STARTING_EQUITY cfg) rows
      in \<lparr> cash_pos = map cash_next ys, equity_pos = map equity_next ys,
           dividend_pos = map dividend ys, interest_pos = map interest ys,
           snp_return_pos = map snp_return_amount ys,
           tail_risk_pos = map (\<lambda>row. snd (snd (snd row))) rows \<rparr>)"
  by (simp add: portfolio_annuity_def annuity_loop_columns Let_def)

lemma trajectory_nth:
  "t < length rows \<Longrightarrow>
   trajectory cfg c e rows ! t =
     loop_body cfg ((c # map cash_next (trajectory cfg c e rows)) ! t)
                   ((e # map equity_next (trajectory cfg c e rows)) ! t) (rows ! t)"
proof (induction rows arbitrary: c e t)
  case Nil
  then show ?case by simp
next
  case (Cons row rows)
  show ?case
  proof (cases t)
    case 0
    then show ?thesis by (simp add: Let_def)
  next
    case (Suc k)
    with Cons.prems have "k < length rows" by simp
    from Cons.IH[OF this] Suc show ?thesis by (simp add: Let_def)
  qed
qed


lemma portfolio_annuity_nth:
  fixes cfg sal snp dd tr t
  defines "p \<equiv> portfolio_annuity cfg sal snp dd tr"
  defines "s \<equiv> loop_body cfg ((STARTING_CASH cfg # cash_pos p) ! t)
                  ((STARTING_EQUITY cfg # equity_pos p) ! t) (sal ! t, snp ! t, dd ! t, tr ! t)"
  assumes "t < length sal" and "t < length snp" and "t < length dd" and "t < length tr"
  shows "cash_pos p ! t = cash_next s" and "equity_pos p ! t = equity_next s"
    and "dividend_pos p ! t = dividend s" and "interest_pos p ! t = interest s"
    and "snp_return_pos p ! t = snp_return_amount s"
proof -
  define rows where "rows = zip4 sal snp dd tr"
  define ys where "ys = trajectory cfg (STARTING_CASH cfg) (STARTING_EQUITY cfg) rows"
  have len: "t < length rows" using assms(3-6) by (simp add: rows_def length_zip4)
  have row: "rows ! t = (sal ! t, snp ! t, dd ! t, tr ! t)"
    using assms(3-6) by (simp add: rows_def zip4_def)
  have cols: "cash_pos p = map cash_next ys" "equity_pos p = map equity_next ys"
    "dividend_pos p = map dividend ys" "interest_pos p = map interest ys"
    "snp_return_pos p = map snp_return_amount ys"
    by (simp_all add: p_def portfolio_annuity_columns Let_def rows_def ys_def)
  have "ys ! t = loop_body cfg ((STARTING_CASH cfg # map cash_next ys) ! t)
      ((STARTING_EQUITY cfg # map equity_next ys) ! t) (rows ! t)"
    unfolding ys_def by (rule trajectory_nth[OF len])
  then have st: "ys ! t = s" by (simp add: s_def cols row)
  have lt: "t < length ys" using len by (simp add: ys_def length_trajectory)
  show "cash_pos p ! t = cash_next s" and "equity_pos p ! t = equity_next s"
    and "dividend_pos p ! t = dividend s" and "interest_pos p ! t = interest s"
    and "snp_return_pos p ! t = snp_return_amount s"
    using lt st by (simp_all add: cols)
qed

lemma tail_risk_pos_nth:
  assumes "t < length sal" and "t < length snp" and "t < length dd" and "t < length tr"
  shows "tail_risk_pos (portfolio_annuity cfg sal snp dd tr) ! t = tr ! t"
  using assms by (simp add: portfolio_annuity_columns Let_def length_zip4 zip4_def)

lemma portfolio_annuity_lengths:
  fixes sal snp dd tr :: "float list"
  defines "n \<equiv> min (length sal) (min (length snp) (min (length dd) (length tr)))"
  shows "length (cash_pos (portfolio_annuity cfg sal snp dd tr)) = n"
    and "length (equity_pos (portfolio_annuity cfg sal snp dd tr)) = n"
    and "length (dividend_pos (portfolio_annuity cfg sal snp dd tr)) = n"
    and "length (interest_pos (portfolio_annuity cfg sal snp dd tr)) = n"
    and "length (snp_return_pos (portfolio_annuity cfg sal snp dd tr)) = n"
    and "length (tail_risk_pos (portfolio_annuity cfg sal snp dd tr)) = n"
  by (simp_all add: portfolio_annuity_columns Let_def length_trajectory length_zip4 n_def)

lemma length_cumprod_from: "length (cumprod_from p xs) = length xs"
  by (induction xs arbitrary: p) simp_all

lemma length_cumprod: "length (cumprod xs) = length xs"
  by (simp add: cumprod_def length_cumprod_from split: list.splits)

lemma cumprod_from_nth:
  "t < length xs \<Longrightarrow> cumprod_from p xs ! t = foldl fmul p (take (Suc t) xs)"
proof (induction xs arbitrary: p t)
  case Nil
  then show ?case by simp
next
  case (Cons x xs)
  then show ?case by (cases t) simp_all
qed

lemma cumprod_nth: "t < length xs \<Longrightarrow> cumprod xs ! t = lprod (take (Suc t) xs)"
proof (cases xs)
  case Nil
  assume "t < length xs"
  with Nil show ?thesis by simp
next
  case (Cons x rest)
  assume t: "t < length xs"
  show ?thesis
  proof (cases t)
    case 0
    with Cons show ?thesis by (simp add: cumprod_def lprod_def)
  next
    case (Suc k)
    with t Cons have "k < length rest" by simp
    with Cons Suc show ?thesis by (simp add: cumprod_def lprod_def cumprod_from_nth)
  qed
qed

section \<open>Properties of the driver loop\<close>

lemma simulation_loop_runs:
  "r \<in> set (fst (simulation_loop rng cfg js g sims)) \<Longrightarrow>
   r \<in> set sims \<or> (\<exists>i g'. r = fst (one_run rng cfg i g'))"
proof (induction js arbitrary: g sims)
  case Nil
  then show ?case by simp
next
  case (Cons i rest)
  obtain r0 g0 where step: "one_run rng cfg i g = (r0, g0)"
    by (cases "one_run rng cfg i g")
  from Cons.prems step have "r \<in> set (fst (simulation_loop rng cfg rest g0 (sims @ [r0])))"
    by simp
  from Cons.IH[OF this] have "r \<in> set (sims @ [r0]) \<or> (\<exists>i g'. r = fst (one_run rng cfg i g'))" .
  moreover have "r0 = fst (one_run rng cfg i g)" using step by simp
  ultimately show ?case by auto
qed

lemma monte_carlo_runs:
  "r \<in> set (fst (monte_carlo rng cfg runs g0)) \<Longrightarrow> \<exists>i g. r = fst (one_run rng cfg i g)"
  using simulation_loop_runs[of r rng cfg "[0..<nat runs]" "random_seed rng 42" "[]"]
  by (simp add: monte_carlo_def)

lemma length_simulation_loop:
  "length (fst (simulation_loop rng cfg js g sims)) = length sims + length js"
proof (induction js arbitrary: g sims)
  case Nil
  show ?case by simp
next
  case (Cons i rest)
  show ?case by (simp add: split_def Let_def Cons.IH)
qed

lemma length_monte_carlo: "length (fst (monte_carlo rng cfg runs g0)) = nat runs"
  by (simp add: monte_carlo_def length_simulation_loop)

lemma simulation_loop_append:
  "simulation_loop rng cfg (js @ ks) g sims =
     simulation_loop rng cfg ks (snd (simulation_loop rng cfg js g sims))
       (fst (simulation_loop rng cfg js g sims))"
proof (induction js arbitrary: g sims)
  case Nil
  show ?case by simp
next
  case (Cons i rest)
  show ?case by (simp add: split_def Let_def Cons.IH)
qed

lemma simulation_loop_prefix:
  "take (length sims) (fst (simulation_loop rng cfg js g sims)) = sims"
proof (induction js arbitrary: g sims)
  case Nil
  show ?case by simp
next
  case (Cons i rest)
  have "take (length sims) (fst (simulation_loop rng cfg (i # rest) g sims)) =
        take (length sims) (take (length (sims @ [fst (one_run rng cfg i g)]))
          (fst (simulation_loop rng cfg rest (snd (one_run rng cfg i g))
             (sims @ [fst (one_run rng cfg i g)]))))"
    by (simp add: split_def Let_def min_def)
  also have "\<dots> = take (length sims) (sims @ [fst (one_run rng cfg i g)])"
    by (simp only: Cons.IH)
  finally show ?case by simp
qed

lemma monte_carlo_prefix:
  "take n (fst (monte_carlo rng cfg (int n + int m) g0)) = fst (monte_carlo rng cfg (int n) g1)"
proof -
  let ?g = "random_seed rng 42"
  have split: "[0..<n + m] = [0..<n] @ [n..<n + m]"
    by (metis le_add1 upt_add_eq_append zero_le)
  have len: "length (fst (simulation_loop rng cfg [0..<n] ?g [])) = n"
    by (simp add: length_simulation_loop)
  have "take n (fst (simulation_loop rng cfg [0..<n + m] ?g [])) =
        fst (simulation_loop rng cfg [0..<n] ?g [])"
    unfolding split simulation_loop_append
    using simulation_loop_prefix[of "fst (simulation_loop rng cfg [0..<n] ?g [])" rng cfg "[n..<n + m]"
        "snd (simulation_loop rng cfg [0..<n] ?g [])"]
    by (simp add: len)
  then show ?thesis
    by (simp add: monte_carlo_def nat_add_distrib)
qed

lemma one_run_lengths:
  fixes rng :: "'g numpy_random" and cfg :: config and i :: nat and g :: 'g
  assumes "numpy_contract rng"
  defines "r \<equiv> fst (one_run rng cfg i g)"
  shows "length (year r) = YEARS_REMAINING cfg"
    and "length (nest_egg r) = YEARS_REMAINING cfg"
    and "length (cash_position r) = YEARS_REMAINING cfg"
    and "length (equity_position r) = YEARS_REMAINING cfg"
    and "length (salary r) = YEARS_REMAINING cfg"
    and "length (salary_growth r) = YEARS_REMAINING cfg"
    and "length (div_yield r) = YEARS_REMAINING cfg"
    and "length (div_return r) = YEARS_REMAINING cfg"
    and "length (snp_return r) = YEARS_REMAINING cfg"
    and "length (snp_return_percent r) = YEARS_REMAINING cfg"
    and "length (interest_return r) = YEARS_REMAINING cfg"
    and "length (inflation r) = YEARS_REMAINING cfg"
    and "length (living_expenses r) = YEARS_REMAINING cfg"
    and "length (tail_risk r) = YEARS_REMAINING cfg"
proof -
  have n: "length (fst (random_normal rng loc scale size g')) = size" for loc scale size g'
    using assms(1) by (simp add: numpy_contract_def)
  have b: "length (fst (random_binomial rng k p size g')) = size" for k p size g'
    using assms(1) by (simp add: numpy_contract_def)
  note defs = r_def one_run_def Let_def split_def portfolio_annuity_columns length_zip4
    length_trajectory drawdown_of_def salary_of_def salary_growth_of_def tail_risk_of_def
    length_cumprod n b
  show "length (year r) = YEARS_REMAINING cfg" by (simp add: defs)
  show "length (nest_egg r) = YEARS_REMAINING cfg" by (simp add: defs)
  show "length (cash_position r) = YEARS_REMAINING cfg" by (simp add: defs)
  show "length (equity_position r) = YEARS_REMAINING cfg" by (simp add: defs)
  show "length (salary r) = YEARS_REMAINING cfg" by (simp add: defs)
  show "length (salary_growth r) = YEARS_REMAINING cfg" by (simp add: defs)
  show "length (div_yield r) = YEARS_REMAINING cfg" by (simp add: defs)
  show "length (div_return r) = YEARS_REMAINING cfg" by (simp add: defs)
  show "length (snp_return r) = YEARS_REMAINING cfg" by (simp add: defs)
  show "length (snp_return_percent r) = YEARS_REMAINING cfg" by (simp add: defs)
  show "length (interest_return r) = YEARS_REMAINING cfg" by (simp add: defs)
  show "length (inflation r) = YEARS_REMAINING cfg" by (simp add: defs)
  show "length (living_expenses r) = YEARS_REMAINING cfg" by (simp add: defs)
  show "length (tail_risk r) = YEARS_REMAINING cfg" by (simp add: defs)
qed

lemma one_run_salary:
  "salary (fst (one_run rng cfg i g)) = salary_of cfg (salary_growth_of cfg)"
  "salary_growth (fst (one_run rng cfg i g)) = salary_growth_of cfg"
  by (simp_all add: one_run_def Let_def split_def)

lemma one_run_tail_risk:
  "set (tail_risk (fst (one_run rng cfg i g))) \<subseteq>
     set (tail_risk_of cfg
       (fst (random_binomial rng 1 (TAIL_RISK_PROBABILITY cfg) (YEARS_REMAINING cfg)
          (snd (random_normal rng (rnd (3 / 100)) (rnd (35 / 1000)) (YEARS_REMAINING cfg)
             (snd (random_normal rng (rnd (12 / 100)) (rnd (2 / 10)) (YEARS_REMAINING cfg) g)))))))"
  by (auto simp add: one_run_def Let_def split_def portfolio_annuity_columns zip4_def
      dest!: set_zip_rightD)

lemma tail_risk_of_values:
  assumes "numpy_contract rng" and "is_float (TAIL_RISK_COST cfg)"
    and "v \<in> set (tail_risk_of cfg (fst (random_binomial rng 1 p n g)))"
  shows "v = 0 \<or> v = TAIL_RISK_COST cfg"
proof -
  from assms(3) obtain b where b: "b \<in> set (fst (random_binomial rng 1 p n g))"
    and v: "v = fmul (TAIL_RISK_COST cfg) (of_int b)"
    by (auto simp add: tail_risk_of_def)
  from assms(1) b have "0 \<le> b \<and> b \<le> int 1"
    unfolding numpy_contract_def by blast
  then have "b = 0 \<or> b = 1" by auto
  then show ?thesis
  proof
    assume "b = 0"
    with v show ?thesis by (simp add: fmul_def rnd_zero)
  next
    assume "b = 1"
    with v assms(2) show ?thesis by (simp add: fmul_def is_float_def)
  qed
qed

section \<open>The first year under the module constants\<close>

lemma module_constants_simps:
  "YEARS_REMAINING module_constants = 85"
  "STARTING_EQUITY module_constants = 60000"
  "STARTING_CASH module_constants = 60000"
  "AFTER_TAX_SALARY module_constants = 100000"
  "FIXED_EXPENSES module_constants = 50000"
  "TAIL_RISK_COST module_constants = 30000"
  "RUNS module_constants = 1"
  by (simp_all add: module_constants_def)

lemma year1_values:
  "fmul 60000 (SNP_DIV_YIELD module_constants) = 840"
  "fmul 60000 (INTEREST_RATE module_constants) = 1800"
  "fmul 60000 0 = 0"
  "fsub (fsub (fadd (fadd 0 840) 1800) 0) 50000 = - 47360"
  "fadd 60000 (fmul (- 47360) (cash_fraction (PORTFOLIO_DISTRIBUTION module_constants))) = 55264"
  "fadd 60000 (fadd 0 (fmul (- 47360) (equity_fraction (PORTFOLIO_DISTRIBUTION module_constants)))) = 17376"
  by code_simp+

lemma year1_step:
  "loop_body module_constants 60000 60000 (0, 0, 50000, 0) =
     \<lparr> dividend = 840, interest = 1800, snp_return_amount = 0, annual_distribution = - 47360,
       cash_next = 55264, equity_next = 17376 \<rparr>"
  by (simp add: loop_body_def year1_values)

lemma year1_portfolio:
  "portfolio_annuity module_constants [0] [0] [50000] [0] =
     \<lparr> cash_pos = [55264], equity_pos = [17376], dividend_pos = [840], interest_pos = [1800],
       snp_return_pos = [0], tail_risk_pos = [0] \<rparr>"
  by (simp add: portfolio_annuity_def zip4_def module_constants_simps year1_step)

lemma truncated:
  "portfolio_annuity module_constants [0, 0] [0] [50000, 50000] [0, 0] =
     \<lparr> cash_pos = [55264], equity_pos = [17376], dividend_pos = [840], interest_pos = [1800],
       snp_return_pos = [0], tail_risk_pos = [0] \<rparr>"
  by (simp add: portfolio_annuity_def zip4_def module_constants_simps year1_step)


lemma year2_values:
  "fmul 17376 (SNP_DIV_YIELD module_constants) = 2139772772954407 / 8796093022208"
  "fmul 55264 (INTEREST_RATE module_constants) = 7291609271689543 / 4398046511104"
  "fmul 17376 0 = 0"
  "fsub (fsub (fadd (fadd 0 (2139772772954407 / 8796093022208))
                 (7291609271689543 / 4398046511104)) 0) 50000 =
     - (6610650934282289 / 137438953472)"
  "fadd 55264 (fmul (- (6610650934282289 / 137438953472))
                 (cash_fraction (PORTFOLIO_DISTRIBUTION module_constants))) =
     6934361231248379 / 137438953472"
  "fadd 17376 (fadd 0 (fmul (- (6610650934282289 / 137438953472))
                         (equity_fraction (PORTFOLIO_DISTRIBUTION module_constants)))) =
     - (890361646331147 / 34359738368)"
  by code_simp+

lemma year2_step:
  "loop_body module_constants 55264 17376 (0, 0, 50000, 0) =
     \<lparr> dividend = 2139772772954407 / 8796093022208,
       interest = 7291609271689543 / 4398046511104, snp_return_amount = 0,
       annual_distribution = - (6610650934282289 / 137438953472),
       cash_next = 6934361231248379 / 137438953472,
       equity_next = - (890361646331147 / 34359738368) \<rparr>"
  by (simp add: loop_body_def year2_values)

lemma two_years_portfolio:
  "portfolio_annuity module_constants [0, 0] [0, 0] [50000, 50000] [0, 0] =
     \<lparr> cash_pos = [55264, 6934361231248379 / 137438953472],
       equity_pos = [17376, - (890361646331147 / 34359738368)],
       dividend_pos = [840, 2139772772954407 / 8796093022208],
       interest_pos = [1800, 7291609271689543 / 4398046511104],
       snp_return_pos = [0, 0], tail_risk_pos = [0, 0] \<rparr>"
  by (simp add: portfolio_annuity_def zip4_def module_constants_simps year1_step year2_step)








section \<open>Rounding error\<close>













section \<open>The claims\<close>

lemma counter_rng_contract: "numpy_contract counter_rng"
  by (auto simp add: numpy_contract_def counter_rng_def)

text \<open>
  C1. One pass of the loop of \<open>portfolio_annuity\<close> computes, from the cash \<open>C\<close> and equity
  \<open>E\<close> before it, the dividend \<open>E * dividend_yield\<close>, the interest \<open>C * interest_rate\<close>,
  the capital return \<open>E * return\<close>, the net distribution
  \<open>salary + dividend + interest - tail - drawdown\<close>, the new cash
  \<open>C + net_distribution * cash_fraction\<close> and the new equity
  \<open>E + (capital_return + net_distribution * equity_fraction)\<close>, every operation in binary64
  and nothing floored or clamped. The loop carries the balances forward: in every year \<open>t\<close>
  of the returned trajectory the entries are those of one such pass on the row \<open>t\<close> of the
  inputs, started from the cash and the equity of year \<open>t - 1\<close> (the starting balances in
  the first year), and the trajectory has one year for each row. With the module constants,
  no salary, no market return, no tail cost and a drawdown of 50000, year 1 yields dividend
  840, interest 1800, net distribution -47360, cash 55264 and equity 17376; a second such
  year starts from these two balances.
\<close>

theorem recurrence_step:
  fixes cfg :: config and sal snp dd tr :: "float list" and t :: nat
  defines "p \<equiv> portfolio_annuity cfg sal snp dd tr"
  defines "s \<equiv> loop_body cfg ((STARTING_CASH cfg # cash_pos p) ! t)
                  ((STARTING_EQUITY cfg # equity_pos p) ! t) (sal ! t, snp ! t, dd ! t, tr ! t)"
  shows "loop_body cfg C E (salary_t, return_t, drawdown_t, tail_t) =
     \<lparr> dividend = fmul E (SNP_DIV_YIELD cfg),
       interest = fmul C (INTEREST_RATE cfg),
       snp_return_amount = fmul E return_t,
       annual_distribution =
         fsub (fsub (fadd (fadd salary_t (fmul E (SNP_DIV_YIELD cfg))) (fmul C (INTEREST_RATE cfg)))
                 tail_t) drawdown_t,
       cash_next =
         fadd C (fmul (fsub (fsub (fadd (fadd salary_t (fmul E (SNP_DIV_YIELD cfg)))
                                     (fmul C (INTEREST_RATE cfg))) tail_t) drawdown_t)
                   (cash_fraction (PORTFOLIO_DISTRIBUTION cfg))),
       equity_next =
         fadd E (fadd (fmul E return_t)
                   (fmul (fsub (fsub (fadd (fadd salary_t (fmul E (SNP_DIV_YIELD cfg)))
                                        (fmul C (INTEREST_RATE cfg))) tail_t) drawdown_t)
                      (equity_fraction (PORTFOLIO_DISTRIBUTION cfg)))) \<rparr>
   \<and> portfolio_annuity cfg [salary_t] [return_t] [drawdown_t] [tail_t] =
       (let s = loop_body cfg (STARTING_CASH cfg) (STARTING_EQUITY cfg)
                  (salary_t, return_t, drawdown_t, tail_t)
        in \<lparr> cash_pos = [cash_next s], equity_pos = [equity_next s], dividend_pos = [dividend s],
             interest_pos = [interest s], snp_return_pos = [snp_return_amount s],
             tail_risk_pos = [tail_t] \<rparr>)
   \<and> (t < length sal \<and> t < length snp \<and> t < length dd \<and> t < length tr \<longrightarrow>
        cash_pos p ! t = cash_next s \<and> equity_pos p ! t = equity_next s
        \<and> dividend_pos p ! t = dividend s \<and> interest_pos p ! t = interest s
        \<and> snp_return_pos p ! t = snp_return_amount s \<and> tail_risk_pos p ! t = tr ! t)
   \<and> length (cash_pos p) = min (length sal) (min (length snp) (min (length dd) (length tr)))
   \<and> length (equity_pos p) = min (length sal) (min (length snp) (min (length dd) (length tr)))
   \<and> length (dividend_pos p) = min (length sal) (min (length snp) (min (length dd) (length tr)))
   \<and> length (interest_pos p) = min (length sal) (min (length snp) (min (length dd) (length tr)))
   \<and> length (snp_return_pos p) = min (length sal) (min (length snp) (min (length dd) (length tr)))
   \<and> length (tail_risk_pos p) = min (length sal) (min (length snp) (min (length dd) (length tr)))
   \<and> loop_body module_constants 60000 60000 (0, 0, 50000, 0) =
       \<lparr> dividend = 840, interest = 1800, snp_return_amount = 0, annual_distribution = - 47360,
         cash_next = 55264, equity_next = 17376 \<rparr>
   \<and> portfolio_annuity module_constants [0] [0] [50000] [0] =
       \<lparr> cash_pos = [55264], equity_pos = [17376], dividend_pos = [840], interest_pos = [1800],
         snp_return_pos = [0], tail_risk_pos = [0] \<rparr>
   \<and> portfolio_annuity module_constants [0, 0] [0, 0] [50000, 50000] [0, 0] =
       \<lparr> cash_pos = [55264, 6934361231248379 / 137438953472],
         equity_pos = [17376, - (890361646331147 / 34359738368)],
         dividend_pos = [840, 2139772772954407 / 8796093022208],
         interest_pos = [1800, 7291609271689543 / 4398046511104],
         snp_return_pos = [0, 0], tail_risk_pos = [0, 0] \<rparr>"
proof (intro conjI impI)
  show "portfolio_annuity cfg [salary_t] [return_t] [drawdown_t] [tail_t] =
       (let s = loop_body cfg (STARTING_CASH cfg) (STARTING_EQUITY cfg)
                  (salary_t, return_t, drawdown_t, tail_t)
        in \<lparr> cash_pos = [cash_next s], equity_pos = [equity_next s], dividend_pos = [dividend s],
             interest_pos = [interest s], snp_return_pos = [snp_return_amount s],
             tail_risk_pos = [tail_t] \<rparr>)"
    by (simp add: portfolio_annuity_def zip4_def Let_def)
  show "length (cash_pos p) = min (length sal) (min (length snp) (min (length dd) (length tr)))"
    unfolding p_def by (rule portfolio_annuity_lengths)
  show "length (equity_pos p) = min (length sal) (min (length snp) (min (length dd) (length tr)))"
    unfolding p_def by (rule portfolio_annuity_lengths)
  show "length (dividend_pos p) = min (length sal) (min (length snp) (min (length dd) (length tr)))"
    unfolding p_def by (rule portfolio_annuity_lengths)
  show "length (interest_pos p) = min (length sal) (min (length snp) (min (length dd) (length tr)))"
    unfolding p_def by (rule portfolio_annuity_lengths)
  show "length (snp_return_pos p) = min (length sal) (min (length snp) (min (length dd) (length tr)))"
    unfolding p_def by (rule portfolio_annuity_lengths)
  show "length (tail_risk_pos p) = min (length sal) (min (length snp) (min (length dd) (length tr)))"
    unfolding p_def by (rule portfolio_annuity_lengths)
next
  assume "t < length sal \<and> t < length snp \<and> t < length dd \<and> t < length tr"
  then have l: "t < length sal" "t < length snp" "t < length dd" "t < length tr" by simp_all
  show "cash_pos p ! t = cash_next s" unfolding p_def s_def by (rule portfolio_annuity_nth[OF l])
  show "equity_pos p ! t = equity_next s" unfolding p_def s_def by (rule portfolio_annuity_nth[OF l])
  show "dividend_pos p ! t = dividend s" unfolding p_def s_def by (rule portfolio_annuity_nth[OF l])
  show "interest_pos p ! t = interest s" unfolding p_def s_def by (rule portfolio_annuity_nth[OF l])
  show "snp_return_pos p ! t = snp_return_amount s"
    unfolding p_def s_def by (rule portfolio_annuity_nth[OF l])
  show "tail_risk_pos p ! t = tr ! t" unfolding p_def by (rule tail_risk_pos_nth[OF l])
qed (simp add: loop_body_def Let_def, rule year1_step, rule year1_portfolio,
     rule two_years_portfolio)

theorem recurrence_step_witness:
  "(1::nat) < length [0, 0 :: float]
   \<and> cash_pos (portfolio_annuity module_constants [0, 0] [0, 0] [50000, 50000] [0, 0]) ! 1 =
       cash_next (loop_body module_constants
         ((STARTING_CASH module_constants #
             cash_pos (portfolio_annuity module_constants [0, 0] [0, 0] [50000, 50000] [0, 0])) ! 1)
         ((STARTING_EQUITY module_constants #
             equity_pos (portfolio_annuity module_constants [0, 0] [0, 0] [50000, 50000] [0, 0])) ! 1)
         ([0, 0] ! 1, [0, 0] ! 1, [50000, 50000] ! 1, [0, 0] ! 1))
   \<and> (STARTING_CASH module_constants #
         cash_pos (portfolio_annuity module_constants [0, 0] [0, 0] [50000, 50000] [0, 0])) ! 1 = 55264
   \<and> (STARTING_EQUITY module_constants #
         equity_pos (portfolio_annuity module_constants [0, 0] [0, 0] [50000, 50000] [0, 0])) ! 1 = 17376
   \<and> cash_next (loop_body module_constants 55264 17376 (0, 0, 50000, 0)) =
       6934361231248379 / 137438953472"
proof -
  have l: "(1::nat) < length [0, 0 :: float]" "(1::nat) < length [50000, 50000 :: float]"
    by simp_all
  note inst = recurrence_step[where cfg = module_constants and sal = "[0, 0]" and snp = "[0, 0]"
      and dd = "[50000, 50000]" and tr = "[0, 0]" and t = 1]
  from inst l
  have a: "cash_pos (portfolio_annuity module_constants [0, 0] [0, 0] [50000, 50000] [0, 0]) ! 1 =
       cash_next (loop_body module_constants
         ((STARTING_CASH module_constants #
             cash_pos (portfolio_annuity module_constants [0, 0] [0, 0] [50000, 50000] [0, 0])) ! 1)
         ((STARTING_EQUITY module_constants #
             equity_pos (portfolio_annuity module_constants [0, 0] [0, 0] [50000, 50000] [0, 0])) ! 1)
         ([0, 0] ! 1, [0, 0] ! 1, [50000, 50000] ! 1, [0, 0] ! 1))"
    by blast
  have b: "(STARTING_CASH module_constants #
         cash_pos (portfolio_annuity module_constants [0, 0] [0, 0] [50000, 50000] [0, 0])) ! 1 = 55264"
    "(STARTING_EQUITY module_constants #
         equity_pos (portfolio_annuity module_constants [0, 0] [0, 0] [50000, 50000] [0, 0])) ! 1 = 17376"
    by (simp_all add: two_years_portfolio)
  have c: "cash_next (loop_body module_constants 55264 17376 (0, 0, 50000, 0)) =
       6934361231248379 / 137438953472"
    by (simp add: year2_step)
  from l(1) a b c show ?thesis by blast
qed

text \<open>
  C2. Two executions of \<open>monte_carlo\<close> with the same run count and configuration return the
  same batch, run for run and field for field (and leave the generator in the same state),
  whatever the state of the generator was when each was called: the generator is seeded with
  42 before the first draw.
\<close>

theorem monte_carlo_deterministic:
  "monte_carlo rng cfg runs g1 = monte_carlo rng cfg runs g2
   \<and> main_module rng cfg g1 = main_module rng cfg g2"
  by (simp add: main_module_def monte_carlo_def split: sum.splits)

text \<open>
  C3, as stated, fails: for sequences of lengths 2, 1, 2 and 2 under a horizon of 85 years
  \<open>portfolio_annuity\<close> returns a trajectory of one year, the one it returns for the first
  entries alone.
\<close>

theorem mismatched_lengths_truncated:
  "portfolio_annuity module_constants [0, 0] [0] [50000, 50000] [0, 0] =
     \<lparr> cash_pos = [55264], equity_pos = [17376], dividend_pos = [840], interest_pos = [1800],
       snp_return_pos = [0], tail_risk_pos = [0] \<rparr>
   \<and> YEARS_REMAINING module_constants = 85"
  by (simp add: truncated module_constants_simps)

lemma zip4_take:
  "zip4 (take n ws) (take n xs) (take n ys) (take n zs) = take n (zip4 ws xs ys zs)"
  by (simp add: zip4_def take_zip)

text \<open>
  C3, amended. \<open>portfolio_annuity\<close> checks no length: for any four sequences it returns a
  trajectory with as many years as the shortest of them has entries, and the entries beyond
  that count have no effect on the result. Nothing is padded.
\<close>

theorem portfolio_annuity_no_length_check:
  fixes sal snp dd tr :: "float list"
  defines "n \<equiv> min (length sal) (min (length snp) (min (length dd) (length tr)))"
  shows "length (cash_pos (portfolio_annuity cfg sal snp dd tr)) = n
       \<and> length (equity_pos (portfolio_annuity cfg sal snp dd tr)) = n
       \<and> length (dividend_pos (portfolio_annuity cfg sal snp dd tr)) = n
       \<and> length (interest_pos (portfolio_annuity cfg sal snp dd tr)) = n
       \<and> length (snp_return_pos (portfolio_annuity cfg sal snp dd tr)) = n
       \<and> length (tail_risk_pos (portfolio_annuity cfg sal snp dd tr)) = n
       \<and> portfolio_annuity cfg sal snp dd tr =
           portfolio_annuity cfg (take n sal) (take n snp) (take n dd) (take n tr)"
proof -
  have "take n (zip4 sal snp dd tr) = zip4 sal snp dd tr"
    by (simp add: n_def length_zip4)
  then have "portfolio_annuity cfg sal snp dd tr =
           portfolio_annuity cfg (take n sal) (take n snp) (take n dd) (take n tr)"
    by (simp add: portfolio_annuity_def zip4_take)
  then show ?thesis
    by (simp add: portfolio_annuity_columns Let_def length_trajectory length_zip4 n_def)
qed



text \<open>
  C5. In every run of a batch returned by \<open>monte_carlo\<close>, each of the fourteen sequences of
  the run has exactly \<open>YEARS_REMAINING\<close> entries, given that numpy returns \<^verbatim>\<open>size\<close>
  samples from every draw.
\<close>

theorem run_sequences_have_horizon_length:
  assumes "numpy_contract rng" and "r \<in> set (fst (monte_carlo rng cfg runs g0))"
  shows "length (year r) = YEARS_REMAINING cfg
       \<and> length (nest_egg r) = YEARS_REMAINING cfg
       \<and> length (cash_position r) = YEARS_REMAINING cfg
       \<and> length (equity_position r) = YEARS_REMAINING cfg
       \<and> length (salary r) = YEARS_REMAINING cfg
       \<and> length (salary_growth r) = YEARS_REMAINING cfg
       \<and> length (div_yield r) = YEARS_REMAINING cfg
       \<and> length (div_return r) = YEARS_REMAINING cfg
       \<and> length (snp_return r) = YEARS_REMAINING cfg
       \<and> length (snp_return_percent r) = YEARS_REMAINING cfg
       \<and> length (interest_return r) = YEARS_REMAINING cfg
       \<and> length (inflation r) = YEARS_REMAINING cfg
       \<and> length (living_expenses r) = YEARS_REMAINING cfg
       \<and> length (tail_risk r) = YEARS_REMAINING cfg"
proof -
  from monte_carlo_runs[OF assms(2)] obtain i g where r: "r = fst (one_run rng cfg i g)"
    by blast
  show ?thesis
    unfolding r using one_run_lengths[OF assms(1), of cfg i g] by simp
qed

theorem run_sequences_have_horizon_length_witness:
  "numpy_contract counter_rng
   \<and> length (fst (monte_carlo counter_rng module_constants 2 0)) = 2
   \<and> length (year (fst (monte_carlo counter_rng module_constants 2 0) ! 1)) = 85
   \<and> length (nest_egg (fst (monte_carlo counter_rng module_constants 2 0) ! 1)) = 85
   \<and> length (inflation (fst (monte_carlo counter_rng module_constants 2 0) ! 1)) = 85
   \<and> length (tail_risk (fst (monte_carlo counter_rng module_constants 2 0) ! 1)) = 85"
proof -
  let ?batch = "fst (monte_carlo counter_rng module_constants 2 0)"
  have len: "length ?batch = 2" by (simp add: length_monte_carlo)
  then have "?batch ! 1 \<in> set ?batch" by simp
  from run_sequences_have_horizon_length[OF counter_rng_contract this] len
  show ?thesis by (simp add: counter_rng_contract module_constants_simps)
qed







text \<open>
  C7. In every run of a batch and every year, the \<open>tail_risk\<close> entry is exactly 0 or exactly
  \<open>TAIL_RISK_COST\<close>, given that a binomial sample with one trial is 0 or 1 and that the
  configured cost is a binary64 number.
\<close>

theorem tail_risk_zero_or_cost:
  assumes "numpy_contract rng" and "is_float (TAIL_RISK_COST cfg)"
    and "r \<in> set (fst (monte_carlo rng cfg runs g0))" and "v \<in> set (tail_risk r)"
  shows "v = 0 \<or> v = TAIL_RISK_COST cfg"
proof -
  from monte_carlo_runs[OF assms(3)] obtain i g where r: "r = fst (one_run rng cfg i g)"
    by blast
  from assms(4) one_run_tail_risk[of rng cfg i g]
  have "v \<in> set (tail_risk_of cfg
       (fst (random_binomial rng 1 (TAIL_RISK_PROBABILITY cfg) (YEARS_REMAINING cfg)
          (snd (random_normal rng (rnd (3 / 100)) (rnd (35 / 1000)) (YEARS_REMAINING cfg)
             (snd (random_normal rng (rnd (12 / 100)) (rnd (2 / 10)) (YEARS_REMAINING cfg) g)))))))"
    unfolding r by blast
  from tail_risk_of_values[OF assms(1) assms(2) this] show ?thesis .
qed

theorem tail_risk_zero_or_cost_witness:
  "numpy_contract counter_rng
   \<and> is_float (TAIL_RISK_COST module_constants)
   \<and> TAIL_RISK_COST module_constants = 30000
   \<and> length (tail_risk (fst (monte_carlo counter_rng module_constants 1 0) ! 0)) = 85
   \<and> (tail_risk (fst (monte_carlo counter_rng module_constants 1 0) ! 0) ! 0 = 0
      \<or> tail_risk (fst (monte_carlo counter_rng module_constants 1 0) ! 0) ! 0 = 30000)"
proof -
  let ?batch = "fst (monte_carlo counter_rng module_constants 1 0)"
  have f: "is_float (TAIL_RISK_COST module_constants)"
    unfolding is_float_def module_constants_simps by code_simp
  have "length ?batch = 1" by (simp add: length_monte_carlo)
  then have r: "?batch ! 0 \<in> set ?batch" by simp
  from monte_carlo_runs[OF r] obtain i g where "?batch ! 0 = fst (one_run counter_rng module_constants i g)"
    by blast
  with one_run_lengths(14)[OF counter_rng_contract, of module_constants i g]
  have len: "length (tail_risk (?batch ! 0)) = 85"
    by (simp add: module_constants_simps)
  then have v: "tail_risk (?batch ! 0) ! 0 \<in> set (tail_risk (?batch ! 0))" by simp
  from tail_risk_zero_or_cost[OF counter_rng_contract f r v] len f
  show ?thesis by (simp add: counter_rng_contract module_constants_simps)
qed

text \<open>
  C8. Run 0 of a batch of two runs is the single run of a batch of one run: both batches
  start from the seed 42, and the draws of a run come after those of the runs before it.
  More generally the first \<open>n\<close> runs of a batch of \<open>n + m\<close> runs are the batch of \<open>n\<close> runs.
\<close>

theorem earlier_runs_unaffected:
  "fst (monte_carlo rng cfg 2 g0) ! 0 = fst (monte_carlo rng cfg 1 g1) ! 0
   \<and> length (fst (monte_carlo rng cfg 1 g1)) = 1
   \<and> length (fst (monte_carlo rng cfg 2 g0)) = 2
   \<and> take n (fst (monte_carlo rng cfg (int n + int m) g0)) = fst (monte_carlo rng cfg (int n) g1)"
proof -
  have "take 1 (fst (monte_carlo rng cfg (int 1 + int 1) g0)) = fst (monte_carlo rng cfg (int 1) g1)"
    by (rule monte_carlo_prefix)
  then have "take 1 (fst (monte_carlo rng cfg 2 g0)) = fst (monte_carlo rng cfg 1 g1)"
    by simp
  then have "fst (monte_carlo rng cfg 1 g1) ! 0 = take 1 (fst (monte_carlo rng cfg 2 g0)) ! 0"
    by simp
  also have "\<dots> = fst (monte_carlo rng cfg 2 g0) ! 0"
    by simp
  finally show ?thesis
    by (simp add: length_monte_carlo monte_carlo_prefix)
qed

lemma lprod_replicate_take:
  "t < n \<Longrightarrow> take (Suc t) (replicate n x) = replicate (Suc t) x"
  by (simp add: min_def)

text \<open>
  C9. In every run the salary growth factors are the constant \<open>1 + SALARY_GROWTH_RATE\<close>,
  once per year, and the salary of year \<open>t\<close> is \<open>AFTER_TAX_SALARY\<close> times the product of
  \<open>t + 1\<close> such factors (taken from left to right in binary64); no random draw enters, and
  all runs of a batch have the same salary sequence.
\<close>

theorem salary_fixed_rate_compounding:
  assumes "r \<in> set (fst (monte_carlo rng cfg runs g0))"
  shows "salary_growth r = replicate (YEARS_REMAINING cfg) (fadd 1 (SALARY_GROWTH_RATE cfg))
       \<and> length (salary r) = YEARS_REMAINING cfg
       \<and> (\<forall>t < YEARS_REMAINING cfg.
             salary r ! t =
               fmul (AFTER_TAX_SALARY cfg)
                 (lprod (replicate (Suc t) (fadd 1 (SALARY_GROWTH_RATE cfg)))))
       \<and> (\<forall>r' \<in> set (fst (monte_carlo rng cfg runs g0)).
             salary r' = salary r \<and> salary_growth r' = salary_growth r)"
proof -
  have sal: "salary q = salary_of cfg (salary_growth_of cfg)
           \<and> salary_growth q = salary_growth_of cfg"
    if "q \<in> set (fst (monte_carlo rng cfg runs g0))" for q
  proof -
    from monte_carlo_runs[OF that] obtain i g where "q = fst (one_run rng cfg i g)" by blast
    then show ?thesis by (simp add: one_run_salary)
  qed
  have nth: "salary_of cfg (salary_growth_of cfg) ! t =
               fmul (AFTER_TAX_SALARY cfg)
                 (lprod (replicate (Suc t) (fadd 1 (SALARY_GROWTH_RATE cfg))))"
    if "t < YEARS_REMAINING cfg" for t
    using that
    by (simp add: salary_of_def salary_growth_of_def length_cumprod cumprod_nth
        lprod_replicate_take del: replicate_Suc)
  have len: "length (salary_of cfg (salary_growth_of cfg)) = YEARS_REMAINING cfg"
    by (simp add: salary_of_def salary_growth_of_def length_cumprod)
  from sal[OF assms] sal nth len show ?thesis
    by (simp add: salary_growth_of_def)
qed

theorem salary_fixed_rate_compounding_witness:
  "salary_growth (fst (monte_carlo counter_rng module_constants 2 0) ! 0) =
     replicate 85 (fadd 1 (SALARY_GROWTH_RATE module_constants))
   \<and> salary (fst (monte_carlo counter_rng module_constants 2 0) ! 0) ! 2 =
       fmul 100000 (lprod (replicate 3 (fadd 1 (SALARY_GROWTH_RATE module_constants))))
   \<and> fmul 100000 (lprod (replicate 3 (fadd 1 (SALARY_GROWTH_RATE module_constants)))) =
       1823141461701427 / 17179869184
   \<and> salary (fst (monte_carlo counter_rng module_constants 2 0) ! 1) =
       salary (fst (monte_carlo counter_rng module_constants 2 0) ! 0)"
proof -
  let ?batch = "fst (monte_carlo counter_rng module_constants 2 0)"
  have len: "length ?batch = 2" by (simp add: length_monte_carlo)
  then have r0: "?batch ! 0 \<in> set ?batch" and r1: "?batch ! 1 \<in> set ?batch" by simp_all
  have v: "fmul 100000 (lprod (replicate 3 (fadd 1 (SALARY_GROWTH_RATE module_constants)))) =
       1823141461701427 / 17179869184"
    by code_simp
  note inst = salary_fixed_rate_compounding[OF r0]
  from inst have g: "salary_growth (?batch ! 0) =
      replicate 85 (fadd 1 (SALARY_GROWTH_RATE module_constants))"
    by (simp add: module_constants_simps)
  from inst have "\<forall>t < YEARS_REMAINING module_constants.
             salary (?batch ! 0) ! t =
               fmul (AFTER_TAX_SALARY module_constants)
                 (lprod (replicate (Suc t) (fadd 1 (SALARY_GROWTH_RATE module_constants))))"
    by blast
  then have "salary (?batch ! 0) ! 2 =
               fmul (AFTER_TAX_SALARY module_constants)
                 (lprod (replicate (Suc 2) (fadd 1 (SALARY_GROWTH_RATE module_constants))))"
    by (simp add: module_constants_simps del: replicate_Suc)
  moreover have "Suc 2 = 3" by simp
  ultimately have s: "salary (?batch ! 0) ! 2 =
       fmul 100000 (lprod (replicate 3 (fadd 1 (SALARY_GROWTH_RATE module_constants))))"
    by (simp only: module_constants_simps)
  from inst r1 have e: "salary (?batch ! 1) = salary (?batch ! 0)"
    by blast
  from g s v e show ?thesis by blast
qed




end
